theory Spec2Isabelle
  imports Complex_Main
begin

section \<open>The GRC ML service (packages/ml-service/src/main.py)\<close>

text \<open>
  A shallow embedding of the four request handlers of the service and of the static
  registry they read.

  Numbers. A Python float is an IEEE 754 double. A double is modelled by the rational
  number it holds, and the arithmetic by the exact operation followed by rounding to the
  nearest double, a tie going to the even significand (\<open>to_double\<close>, \<open>fadd\<close>,
  \<open>fmul\<close>); a decimal literal of the source (0.2, 0.75, ...) is the double nearest to
  it. Overflow to infinity is not modelled: no value the handlers compute leaves the
  interval from 0 to 10. \<open>round(x, 3)\<close> rounds the exact value of the double \<open>x\<close> to the
  nearest multiple of 1/1000 and returns the double nearest to that decimal; Python
  writes this double, in \<open>repr\<close> and in JSON, as the decimal with at most three places,
  and the model holds the decimal itself (\<open>py_round\<close>). The accuracies of the registry
  are held the same way, as the decimals they are written as.

  Effects. The handlers read three things of their environment: the module-level list
  \<open>MOCK_MODELS\<close>, the clock (\<open>datetime.now().isoformat()\<close>) and numpy's global random
  generator. The list is a field of the server state, which every handler takes and
  returns; the clock reading and the random draws of one call are an argument of the
  handler.
\<close>

subsection \<open>Data model\<close>

text \<open>
  An entry of \<open>MOCK_MODELS\<close> and an instance of \<open>ModelInfo\<close> have the same six keys;
  both are this record. The fields \<open>id\<close>, \<open>name\<close>, \<open>type\<close>, \<open>status\<close> of the source
  carry the prefix \<open>m_\<close> here.
\<close>

record ModelInfo =
  m_id :: string
  m_name :: string
  m_type :: string
  m_status :: string
  m_accuracy :: rat
  m_version :: string

record HealthResponse =
  status :: string
  timestamp :: string
  models_loaded :: int

text \<open>The values a JSON object can hold (\<open>Dict[str, Any]\<close> of a request body).\<close>

datatype json =
    JNull
  | JBool bool
  | JNum rat
  | JStr string
  | JArr "json list"
  | JObj "(string \<times> json) list"

record PredictionRequest =
  tenant_id :: string
  model_type :: string
  data :: "(string \<times> json) list"

record PredictionResponse =
  prediction :: rat
  confidence :: rat
  model_version :: string
  p_timestamp :: string

text \<open>\<open>HTTPException(status_code, detail)\<close>.\<close>

datatype error = HTTPException nat string

text \<open>The module-level state: the registry list.\<close>

record server_state =
  registry :: "ModelInfo list"

text \<open>
  What one call reads from outside: the clock, the double \<open>np.random.normal(6.5, 1.5)\<close>
  returns if it is called, and the doubles the first and the second call of
  \<open>np.random.random()\<close> return.
\<close>

record env =
  now_isoformat :: string
  normal_6_5_1_5 :: rat
  random_1 :: rat
  random_2 :: rat

subsection \<open>The registry\<close>

definition MOCK_MODELS :: "ModelInfo list" where
  "MOCK_MODELS =
     [\<lparr>m_id = ''risk-predictor-local'',
       m_name = ''Risk Prediction Model (Local)'',
       m_type = ''risk_prediction'',
       m_status = ''active'',
       m_accuracy = 847 / 1000,
       m_version = ''1.0.0-local''\<rparr>,
      \<lparr>m_id = ''data-quality-local'',
       m_name = ''Data Quality Checker (Local)'',
       m_type = ''data_quality'',
       m_status = ''active'',
       m_accuracy = 923 / 1000,
       m_version = ''1.0.0-local''\<rparr>]"

definition startup :: server_state where
  "startup = \<lparr>registry = MOCK_MODELS\<rparr>"

subsection \<open>Doubles\<close>

text \<open>Rounding to the nearest integer, a tie to the even one.\<close>

definition round_half_even :: "rat \<Rightarrow> int" where
  "round_half_even x =
     (let f = \<lfloor>x\<rfloor>; d = x - of_int f
      in if d < 1 / 2 then f
         else if 1 / 2 < d then f + 1
         else if even f then f else f + 1)"

text \<open>
  The binary exponent of a double's value: the \<open>j\<close> with \<open>2^j \<le> x < 2^(j+1)\<close>, counted by
  halving a value from 1 on and by doubling a value below 1, and kept between \<open>-1022\<close>,
  the exponent of the subnormal numbers, and \<open>1023\<close>.
\<close>

fun exponent_up :: "nat \<Rightarrow> rat \<Rightarrow> int" where
  "exponent_up 0 x = 0"
| "exponent_up (Suc n) x = (if x < 2 then 0 else exponent_up n (x / 2) + 1)"

fun exponent_down :: "nat \<Rightarrow> rat \<Rightarrow> int" where
  "exponent_down 0 x = 0"
| "exponent_down (Suc n) x = (if 1 \<le> x then 0 else exponent_down n (x * 2) - 1)"

definition exponent :: "rat \<Rightarrow> int" where
  "exponent x = (if 1 \<le> \<bar>x\<bar> then exponent_up 1023 \<bar>x\<bar> else exponent_down 1022 \<bar>x\<bar>)"

text \<open>
  The double nearest to \<open>x\<close>: a significand of 53 bits, so a whole multiple of
  \<open>2^(e-52)\<close> where \<open>e\<close> is the exponent of \<open>x\<close>.
\<close>

definition to_double :: "rat \<Rightarrow> rat" where
  "to_double x =
     (let q = 2 powi (exponent x - 52)
      in of_int (round_half_even (x / q)) * q)"

definition is_double :: "rat \<Rightarrow> bool" where
  "is_double x \<longleftrightarrow> to_double x = x"

text \<open>\<open>x + y\<close> and \<open>x * y\<close> of two doubles.\<close>

definition fadd :: "rat \<Rightarrow> rat \<Rightarrow> rat" where
  "fadd x y = to_double (x + y)"

definition fmul :: "rat \<Rightarrow> rat \<Rightarrow> rat" where
  "fmul x y = to_double (x * y)"

subsection \<open>Python's \<open>round\<close>, \<open>min\<close> and \<open>max\<close>\<close>

text \<open>
  \<open>round(x, ndigits)\<close> for \<open>ndigits \<ge> 0\<close>: the decimal with \<open>ndigits\<close> places nearest to
  the value of \<open>x\<close>.
\<close>

definition py_round :: "rat \<Rightarrow> nat \<Rightarrow> rat" where
  "py_round x ndigits = of_int (round_half_even (x * 10 ^ ndigits)) / 10 ^ ndigits"

text \<open>
  \<open>min(a, b)\<close> returns \<open>b\<close> only if \<open>b < a\<close>, and \<open>max(a, b)\<close> returns \<open>b\<close> only if
  \<open>a < b\<close>: the first argument wins a tie.
\<close>

definition py_min :: "rat \<Rightarrow> rat \<Rightarrow> rat" where
  "py_min a b = (if b < a then b else a)"

definition py_max :: "rat \<Rightarrow> rat \<Rightarrow> rat" where
  "py_max a b = (if a < b then b else a)"

subsection \<open>The handlers\<close>

text \<open>\<open>GET /health\<close>.\<close>

definition health_check :: "env \<Rightarrow> server_state \<Rightarrow> HealthResponse \<times> server_state" where
  "health_check e s =
     (\<lparr>status = ''healthy'',
       timestamp = now_isoformat e,
       models_loaded = int (length (registry s))\<rparr>, s)"

text \<open>\<open>GET /models\<close>: a new list of new \<open>ModelInfo\<close> objects, one for each entry.\<close>

definition get_models :: "server_state \<Rightarrow> ModelInfo list \<times> server_state" where
  "get_models s = (map (\<lambda>model. model) (registry s), s)"

text \<open>
  \<open>next((m for m in MOCK_MODELS if m["type"] == request.model_type), None)\<close>: the first
  entry of the list, in its order, that has the type.
\<close>

fun find_model :: "ModelInfo list \<Rightarrow> string \<Rightarrow> ModelInfo option" where
  "find_model [] t = None"
| "find_model (m # ms) t = (if m_type m = t then Some m else find_model ms t)"

text \<open>
  The three branches on \<open>request.model_type\<close>; the result is the pair of doubles
  \<open>(prediction, confidence)\<close> that is passed to \<open>round\<close>. In \<open>0.75 + u * 0.2\<close> the
  product is rounded to a double first and the sum after it.
\<close>

definition generate :: "string \<Rightarrow> env \<Rightarrow> rat \<times> rat" where
  "generate t e =
     (if t = ''risk_prediction'' then
        (py_max 0 (py_min 10 (normal_6_5_1_5 e)),
         fadd (to_double (75 / 100)) (fmul (random_1 e) (to_double (2 / 10))))
      else if t = ''data_quality'' then
        (fadd (to_double (7 / 10)) (fmul (random_1 e) (to_double (25 / 100))),
         fadd (to_double (8 / 10)) (fmul (random_2 e) (to_double (15 / 100))))
      else
        (random_1 e,
         fadd (to_double (6 / 10)) (fmul (random_2 e) (to_double (3 / 10)))))"

text \<open>
  \<open>POST /predict\<close>. \<open>not model\<close> holds of \<open>None\<close>; an entry of the registry is a
  dict with six keys, which is true.
\<close>

definition predict ::
  "PredictionRequest \<Rightarrow> env \<Rightarrow> server_state \<Rightarrow> (error + PredictionResponse) \<times> server_state" where
  "predict request e s =
     (case find_model (registry s) (model_type request) of
        None \<Rightarrow>
          (Inl (HTTPException 404 (''Model type '' @ [CHR 0x27] @ model_type request
                                    @ [CHR 0x27] @ '' not found'')), s)
      | Some model \<Rightarrow>
          (let (prediction, confidence) = generate (model_type request) e
           in (Inr \<lparr>prediction = py_round prediction 3,
                     confidence = py_round confidence 3,
                     model_version = m_version model,
                     p_timestamp = now_isoformat e\<rparr>, s)))"

text \<open>\<open>GET /\<close>.\<close>

definition root :: "server_state \<Rightarrow> (string \<times> json) list \<times> server_state" where
  "root s =
     ([(''service'', JStr ''GRC ML Service''),
       (''version'', JStr ''0.1.0-local''),
       (''status'', JStr ''running''),
       (''endpoints'', JObj [(''health'', JStr ''/health''),
                             (''models'', JStr ''/models''),
                             (''predict'', JStr ''/predict'')])], s)"

subsection \<open>The service: one request after the other\<close>

datatype request =
    GetHealth
  | GetModels
  | PostPredict PredictionRequest
  | GetRoot

datatype response =
    Health HealthResponse
  | Models "ModelInfo list"
  | Prediction PredictionResponse
  | Root "(string \<times> json) list"

fun handle :: "request \<Rightarrow> env \<Rightarrow> server_state \<Rightarrow> (error + response) \<times> server_state" where
  "handle GetHealth e s = (let (r, s') = health_check e s in (Inr (Health r), s'))"
| "handle GetModels e s = (let (r, s') = get_models s in (Inr (Models r), s'))"
| "handle (PostPredict request) e s =
     (let (r, s') = predict request e s in (map_sum id Prediction r, s'))"
| "handle GetRoot e s = (let (r, s') = root s in (Inr (Root r), s'))"

text \<open>The state after a sequence of requests, each with its own clock and draws.\<close>

fun serve :: "(request \<times> env) list \<Rightarrow> server_state \<Rightarrow> server_state" where
  "serve [] s = s"
| "serve ((rq, e) # rest) s = serve rest (snd (handle rq e s))"

subsection \<open>What the specification calls rounding\<close>

text \<open>
  The specification's reading of "rounded to 3 decimal places", written from its words and
  independently of \<open>py_round\<close>: \<open>y\<close> is \<open>x\<close> rounded to 3 decimal places if \<open>y\<close> is a
  whole number of thousandths and no other whole number of thousandths is closer to \<open>x\<close>.
\<close>

definition rounded_to_3_places :: "rat \<Rightarrow> rat \<Rightarrow> bool" where
  "rounded_to_3_places x y \<longleftrightarrow>
     y * 1000 = of_int \<lfloor>y * 1000\<rfloor> \<and> \<bar>y - x\<bar> \<le> 1 / 2000"

section \<open>Properties\<close>

subsection \<open>Rounding\<close>

lemma rhe_lower: "of_int a \<le> z \<Longrightarrow> a \<le> round_half_even z"
proof -
  assume "of_int a \<le> z"
  then have "a \<le> \<lfloor>z\<rfloor>" by (simp add: le_floor_iff)
  then show ?thesis by (simp add: round_half_even_def Let_def)
qed

lemma rhe_upper: "z \<le> of_int b \<Longrightarrow> round_half_even z \<le> b"
proof -
  assume zb: "z \<le> of_int b"
  show ?thesis
  proof (cases "z = of_int b")
    case True
    then show ?thesis by (simp add: round_half_even_def Let_def)
  next
    case False
    with zb have "z < of_int b" by simp
    then have "\<lfloor>z\<rfloor> < b" by (simp add: floor_less_iff)
    then show ?thesis by (simp add: round_half_even_def Let_def)
  qed
qed

lemma rhe_near: "\<bar>of_int (round_half_even z) - z\<bar> \<le> 1 / 2"
proof -
  have "of_int \<lfloor>z\<rfloor> \<le> z" "z < of_int \<lfloor>z\<rfloor> + 1" by linarith+
  then show ?thesis by (auto simp: round_half_even_def Let_def)
qed

lemma rhe_of_int: "round_half_even (of_int k) = k"
  by (simp add: round_half_even_def)

lemma rhe_mono:
  assumes "z \<le> w"
  shows "round_half_even z \<le> round_half_even w"
proof (cases "z \<le> of_int (round_half_even w)")
  case True
  then show ?thesis by (rule rhe_upper)
next
  case False
  then have zb: "of_int (round_half_even w) < z" by simp
  with assms have fw: "round_half_even w \<le> \<lfloor>w\<rfloor>" by (simp add: le_floor_iff)
  have "\<lfloor>w\<rfloor> \<le> round_half_even w" by (simp add: round_half_even_def Let_def)
  with fw have eq: "round_half_even w = \<lfloor>w\<rfloor>" by simp
  then have wd: "w - of_int \<lfloor>w\<rfloor> \<le> 1 / 2"
    by (auto simp: round_half_even_def Let_def split: if_splits)
  from zb eq have "\<lfloor>w\<rfloor> \<le> \<lfloor>z\<rfloor>" by (simp add: le_floor_iff)
  moreover from assms have "\<lfloor>z\<rfloor> \<le> \<lfloor>w\<rfloor>" by (rule floor_mono)
  ultimately have fz: "\<lfloor>z\<rfloor> = \<lfloor>w\<rfloor>" by simp
  show ?thesis
  proof (cases "z = w")
    case True
    then show ?thesis by simp
  next
    case False
    with assms wd have "z - of_int \<lfloor>w\<rfloor> < 1 / 2" by simp
    with fz have "round_half_even z = \<lfloor>w\<rfloor>" by (simp add: round_half_even_def Let_def)
    with eq show ?thesis by simp
  qed
qed

text \<open>Rounding never crosses a point of the grid it rounds to.\<close>

lemma py_round_lower: "of_int a / 10 ^ n \<le> x \<Longrightarrow> of_int a / 10 ^ n \<le> py_round x n"
proof -
  assume "of_int a / 10 ^ n \<le> x"
  then have "of_int a \<le> x * 10 ^ n" by (simp add: pos_divide_le_eq)
  then have "a \<le> round_half_even (x * 10 ^ n)" by (rule rhe_lower)
  then have "(of_int a :: rat) \<le> of_int (round_half_even (x * 10 ^ n))" by simp
  then show ?thesis by (simp add: py_round_def divide_right_mono)
qed

lemma py_round_upper: "x \<le> of_int b / 10 ^ n \<Longrightarrow> py_round x n \<le> of_int b / 10 ^ n"
proof -
  assume "x \<le> of_int b / 10 ^ n"
  then have "x * 10 ^ n \<le> of_int b" by (simp add: pos_le_divide_eq)
  then have "round_half_even (x * 10 ^ n) \<le> b" by (rule rhe_upper)
  then have "(of_int (round_half_even (x * 10 ^ n)) :: rat) \<le> of_int b" by simp
  then show ?thesis by (simp add: py_round_def divide_right_mono)
qed

lemma py_round_near: "\<bar>py_round x 3 - x\<bar> \<le> 1 / 2000"
proof -
  have "\<bar>of_int (round_half_even (x * 1000)) - x * 1000\<bar> \<le> 1 / 2" by (rule rhe_near)
  then show ?thesis by (simp add: py_round_def abs_le_iff field_simps)
qed

lemma py_round_grid: "py_round x 3 * 1000 = of_int \<lfloor>py_round x 3 * 1000\<rfloor>"
  by (simp add: py_round_def)

lemma py_round_mono: "x \<le> y \<Longrightarrow> py_round x n \<le> py_round y n"
proof -
  assume "x \<le> y"
  then have "x * 10 ^ n \<le> y * 10 ^ n" by simp
  then have "round_half_even (x * 10 ^ n) \<le> round_half_even (y * 10 ^ n)" by (rule rhe_mono)
  then have "(of_int (round_half_even (x * 10 ^ n)) :: rat) \<le> of_int (round_half_even (y * 10 ^ n))"
    by (simp only: of_int_le_iff)
  then show ?thesis by (simp add: py_round_def divide_right_mono)
qed

subsection \<open>The exponent of a double\<close>

lemma p2_step: "(2::rat) powi (r + 1) = 2 powi r * 2"
  by (simp add: power_int_add)

lemma p2_pos: "0 < (2::rat) powi r"
  by simp

lemma p2_mono: "r \<le> s \<Longrightarrow> (2::rat) powi r \<le> 2 powi s"
  by (rule power_int_increasing) simp_all

lemma exponent_up_range: "0 \<le> exponent_up n x \<and> exponent_up n x \<le> int n"
  by (induction n arbitrary: x) auto

lemma exponent_up_below: "1 \<le> x \<Longrightarrow> 2 powi (exponent_up n x) \<le> x"
proof (induction n arbitrary: x)
  case 0
  then show ?case by simp
next
  case (Suc n)
  show ?case
  proof (cases "x < 2")
    case True
    with Suc.prems show ?thesis by simp
  next
    case False
    then have "1 \<le> x / 2" by simp
    then have "2 powi (exponent_up n (x / 2)) \<le> x / 2" by (rule Suc.IH)
    with False show ?thesis by (simp add: p2_step)
  qed
qed

lemma exponent_up_above: "exponent_up n x < int n \<Longrightarrow> x < 2 powi (exponent_up n x + 1)"
proof (induction n arbitrary: x)
  case 0
  then show ?case by simp
next
  case (Suc n)
  show ?case
  proof (cases "x < 2")
    case True
    then show ?thesis by simp
  next
    case False
    with Suc.prems have "exponent_up n (x / 2) < int n" by simp
    then have "x / 2 < 2 powi (exponent_up n (x / 2) + 1)" by (rule Suc.IH)
    then have "x < 2 powi (exponent_up n (x / 2) + 1) * 2" by simp
    also have "\<dots> = 2 powi (exponent_up n (x / 2) + 1 + 1)" by (simp only: p2_step)
    finally show ?thesis using False by simp
  qed
qed

lemma exponent_down_range: "- int n \<le> exponent_down n x \<and> exponent_down n x \<le> 0"
proof (induction n arbitrary: x)
  case 0
  then show ?case by simp
next
  case (Suc n)
  from Suc [of "x * 2"] show ?case by simp
qed

lemma exponent_down_one: "1 \<le> x \<Longrightarrow> exponent_down n x = 0"
  by (cases n) simp_all

lemma exponent_down_below: "- int n < exponent_down n x \<Longrightarrow> 2 powi (exponent_down n x) \<le> x"
proof (induction n arbitrary: x)
  case 0
  then show ?case by simp
next
  case (Suc n)
  show ?case
  proof (cases "1 \<le> x")
    case True
    then show ?thesis by simp
  next
    case False
    with Suc.prems have "- int n < exponent_down n (x * 2)" by simp
    then have "2 powi (exponent_down n (x * 2)) \<le> x * 2" by (rule Suc.IH)
    moreover have "(2::rat) powi (exponent_down n (x * 2)) = 2 powi (exponent_down n (x * 2) - 1) * 2"
      using p2_step [of "exponent_down n (x * 2) - 1"] by simp
    ultimately show ?thesis using False by simp
  qed
qed

lemma exponent_down_above: "x < 1 \<Longrightarrow> x < 2 powi (exponent_down n x + 1)"
proof (induction n arbitrary: x)
  case 0
  then show ?case by simp
next
  case (Suc n)
  show ?case
  proof (cases "x * 2 < 1")
    case True
    then have "x * 2 < 2 powi (exponent_down n (x * 2) + 1)" by (rule Suc.IH)
    with Suc.prems show ?thesis by (simp add: p2_step)
  next
    case False
    then have "exponent_down n (x * 2) = 0" by (simp add: exponent_down_one)
    with Suc.prems show ?thesis by simp
  qed
qed

lemma exponent_range: "- 1022 \<le> exponent x \<and> exponent x \<le> 1023"
  using exponent_up_range [of 1023 "\<bar>x\<bar>"] exponent_down_range [of 1022 "\<bar>x\<bar>"]
  by (simp add: exponent_def)

lemma exponent_below: "- 1022 < exponent x \<Longrightarrow> 2 powi (exponent x) \<le> \<bar>x\<bar>"
  using exponent_up_below [of "\<bar>x\<bar>" 1023] exponent_down_below [of 1022 "\<bar>x\<bar>"]
  by (simp add: exponent_def split: if_splits)

lemma exponent_above: "exponent x < 1023 \<Longrightarrow> \<bar>x\<bar> < 2 powi (exponent x + 1)"
  using exponent_up_above [of 1023 "\<bar>x\<bar>"] exponent_down_above [of "\<bar>x\<bar>" 1022]
  by (simp add: exponent_def split: if_splits)

lemma exponent_mono:
  assumes "\<bar>x\<bar> \<le> \<bar>y\<bar>"
  shows "exponent x \<le> exponent y"
proof (rule ccontr)
  assume "\<not> exponent x \<le> exponent y"
  then have lt: "exponent y < exponent x" by simp
  with exponent_range [of y] have "- 1022 < exponent x" by simp
  then have "2 powi (exponent x) \<le> \<bar>x\<bar>" by (rule exponent_below)
  moreover from lt exponent_range [of x] have "exponent y < 1023" by simp
  then have "\<bar>y\<bar> < 2 powi (exponent y + 1)" by (rule exponent_above)
  moreover from lt have "(2::rat) powi (exponent y + 1) \<le> 2 powi (exponent x)"
    by (intro p2_mono) simp
  ultimately show False using assms by simp
qed

lemma exponent_eq:
  assumes "2 powi j \<le> \<bar>x\<bar>" and "\<bar>x\<bar> < 2 powi (j + 1)" and "- 1022 \<le> j" and "j \<le> 1023"
  shows "exponent x = j"
proof (rule ccontr)
  assume ne: "exponent x \<noteq> j"
  show False
  proof (cases "exponent x < j")
    case True
    with assms(4) have "exponent x < 1023" by simp
    then have "\<bar>x\<bar> < 2 powi (exponent x + 1)" by (rule exponent_above)
    moreover from True have "(2::rat) powi (exponent x + 1) \<le> 2 powi j"
      by (intro p2_mono) simp
    ultimately show False using assms(1) by simp
  next
    case False
    with ne have gt: "j < exponent x" by simp
    with assms(3) have "- 1022 < exponent x" by simp
    then have "2 powi (exponent x) \<le> \<bar>x\<bar>" by (rule exponent_below)
    moreover from gt have "(2::rat) powi (j + 1) \<le> 2 powi (exponent x)"
      by (intro p2_mono) simp
    ultimately show False using assms(2) by simp
  qed
qed

subsection \<open>Rounding to a double is monotone\<close>

lemma p2_split: "(2::rat) powi (e + 1) = 2 powi (e - 52) * 2 ^ 53"
proof -
  have "e + 1 = (e - 52) + 53" by simp
  then have "(2::rat) powi (e + 1) = 2 powi ((e - 52) + 53)" by (rule arg_cong)
  also have "\<dots> = 2 powi (e - 52) * 2 powi 53" by (rule power_int_add) simp
  finally show ?thesis by simp
qed

lemma p2_split': "(2::rat) powi e = 2 powi (e - 52) * 2 ^ 52"
proof -
  have "e = (e - 52) + 52" by simp
  then have "(2::rat) powi e = 2 powi ((e - 52) + 52)" by (rule arg_cong)
  also have "\<dots> = 2 powi (e - 52) * 2 powi 52" by (rule power_int_add) simp
  finally show ?thesis by simp
qed

lemma to_double_le_pow:
  assumes "exponent x < 1023" and "0 \<le> x"
  shows "to_double x \<le> 2 powi (exponent x + 1)"
proof -
  let ?q = "(2::rat) powi (exponent x - 52)"
  have q: "0 < ?q" by simp
  from assms have "x < 2 powi (exponent x + 1)" using exponent_above [of x] by simp
  then have "x \<le> ?q * 2 ^ 53" by (simp only: p2_split)
  with q have "x / ?q \<le> of_int (2 ^ 53)" by (simp add: pos_divide_le_eq mult.commute)
  then have "round_half_even (x / ?q) \<le> 2 ^ 53" by (rule rhe_upper)
  then have "(of_int (round_half_even (x / ?q)) :: rat) \<le> of_int (2 ^ 53)" by (simp only: of_int_le_iff)
  with q have "of_int (round_half_even (x / ?q)) * ?q \<le> of_int (2 ^ 53) * ?q"
    by (intro mult_right_mono) simp_all
  then show ?thesis by (simp add: to_double_def Let_def p2_split mult.commute)
qed

lemma to_double_ge_pow:
  assumes "- 1022 < exponent y" and "0 \<le> y"
  shows "2 powi (exponent y) \<le> to_double y"
proof -
  let ?q = "(2::rat) powi (exponent y - 52)"
  have q: "0 < ?q" by simp
  from assms have "2 powi (exponent y) \<le> y" using exponent_below [of y] by simp
  then have "?q * 2 ^ 52 \<le> y" by (simp only: p2_split' [symmetric])
  with q have "of_int (2 ^ 52) \<le> y / ?q" by (simp add: pos_le_divide_eq mult.commute)
  then have "2 ^ 52 \<le> round_half_even (y / ?q)" by (rule rhe_lower)
  then have "(of_int (2 ^ 52) :: rat) \<le> of_int (round_half_even (y / ?q))" by (simp only: of_int_le_iff)
  with q have "of_int (2 ^ 52) * ?q \<le> of_int (round_half_even (y / ?q)) * ?q"
    by (intro mult_right_mono) simp_all
  moreover have "(2::rat) powi (exponent y) = of_int (2 ^ 52) * ?q"
    using p2_split' [of "exponent y"] by (simp add: mult.commute)
  ultimately show ?thesis by (simp add: to_double_def Let_def)
qed

lemma to_double_mono:
  assumes "0 \<le> x" and "x \<le> y"
  shows "to_double x \<le> to_double y"
proof -
  from assms have y: "0 \<le> y" by simp
  from assms have le: "exponent x \<le> exponent y" by (intro exponent_mono) simp
  show ?thesis
  proof (cases "exponent x = exponent y")
    case True
    let ?q = "(2::rat) powi (exponent y - 52)"
    have q: "0 < ?q" by simp
    with assms(2) have "x / ?q \<le> y / ?q" by (simp add: divide_right_mono)
    then have "round_half_even (x / ?q) \<le> round_half_even (y / ?q)" by (rule rhe_mono)
    then have "(of_int (round_half_even (x / ?q)) :: rat) \<le> of_int (round_half_even (y / ?q))"
      by (simp only: of_int_le_iff)
    with q have "of_int (round_half_even (x / ?q)) * ?q \<le> of_int (round_half_even (y / ?q)) * ?q"
      by (intro mult_right_mono) simp_all
    with True show ?thesis by (simp add: to_double_def Let_def)
  next
    case False
    with le have lt: "exponent x < exponent y" by simp
    with exponent_range [of y] have "exponent x < 1023" by simp
    then have "to_double x \<le> 2 powi (exponent x + 1)" using assms(1) by (rule to_double_le_pow)
    also from lt have "\<dots> \<le> 2 powi (exponent y)" by (intro p2_mono) simp
    also have "\<dots> \<le> to_double y"
    proof (rule to_double_ge_pow)
      from lt exponent_range [of x] show "- 1022 < exponent y" by simp
    qed (rule y)
    finally show ?thesis .
  qed
qed

subsection \<open>The lookup\<close>

lemma find_model_MOCK:
  "find_model MOCK_MODELS t =
     (if t = ''risk_prediction'' then Some (MOCK_MODELS ! 0)
      else if t = ''data_quality'' then Some (MOCK_MODELS ! 1) else None)"
  by (simp add: MOCK_MODELS_def)

lemma find_model_None: "find_model ms t = None \<longleftrightarrow> (\<forall>m \<in> set ms. m_type m \<noteq> t)"
  by (induction ms) auto

lemma find_model_first:
  "(\<forall>x \<in> set pre. m_type x \<noteq> t) \<Longrightarrow> m_type m = t \<Longrightarrow> find_model (pre @ m # post) t = Some m"
  by (induction pre) auto

lemma find_model_Some:
  "find_model ms t = Some m \<Longrightarrow>
     \<exists>pre post. ms = pre @ m # post \<and> (\<forall>x \<in> set pre. m_type x \<noteq> t) \<and> m_type m = t"
proof (induction ms)
  case Nil
  then show ?case by simp
next
  case (Cons a ms)
  show ?case
  proof (cases "m_type a = t")
    case True
    with Cons.prems have "a = m" by simp
    with True have "a # ms = [] @ m # ms \<and> (\<forall>x \<in> set []. m_type x \<noteq> t) \<and> m_type m = t"
      by simp
    then show ?thesis by blast
  next
    case False
    with Cons obtain pre post where
      "ms = pre @ m # post" "\<forall>x \<in> set pre. m_type x \<noteq> t" "m_type m = t"
      by auto
    with False have "a # ms = (a # pre) @ m # post \<and> (\<forall>x \<in> set (a # pre). m_type x \<noteq> t) \<and> m_type m = t"
      by simp
    then show ?thesis by blast
  qed
qed

subsection \<open>The two results of \<open>predict\<close>\<close>

lemma predict_Inl:
  "fst (predict request e s) = Inl err \<longleftrightarrow>
     find_model (registry s) (model_type request) = None \<and>
     err = HTTPException 404 (''Model type '' @ [CHR 0x27] @ model_type request
                                @ [CHR 0x27] @ '' not found'')"
  by (auto simp: predict_def split: option.splits prod.splits)

lemma predict_Inr:
  "fst (predict request e s) = Inr r \<longleftrightarrow>
     (\<exists>m. find_model (registry s) (model_type request) = Some m \<and>
          r = \<lparr>prediction = py_round (fst (generate (model_type request) e)) 3,
                confidence = py_round (snd (generate (model_type request) e)) 3,
                model_version = m_version m,
                p_timestamp = now_isoformat e\<rparr>)"
  by (auto simp: predict_def split: option.splits prod.splits)

subsection \<open>The state\<close>

lemma handle_state: "snd (handle rq e s) = s"
  by (cases rq)
     (simp_all add: health_check_def get_models_def predict_def root_def
        split: option.splits prod.splits)

lemma serve_state: "serve rs s = s"
  by (induction rs arbitrary: s) (auto simp: handle_state)

subsection \<open>The values passed to \<open>round\<close>\<close>

text \<open>The greatest double below 1 is \<open>1 - 2^(-53)\<close>.\<close>

lemma double_below_1:
  assumes "is_double u" and "0 \<le> u" and "u < 1"
  shows "u \<le> 1 - 1 / 2 ^ 53"
proof (rule ccontr)
  assume "\<not> u \<le> 1 - 1 / 2 ^ 53"
  then have gt: "1 - 1 / 2 ^ 53 < u" by simp
  then have half: "1 / 2 \<le> u" by simp
  have "exponent u = - 1"
  proof (rule exponent_eq)
    from half show "2 powi (- 1) \<le> \<bar>u\<bar>" by (simp add: power_int_minus)
    from assms show "\<bar>u\<bar> < 2 powi (- 1 + 1)" by simp
  qed simp_all
  then have "to_double u = of_int (round_half_even (u / 2 powi (- 53))) * 2 powi (- 53)"
    by (simp add: to_double_def Let_def)
  with assms(1) have "u = of_int (round_half_even (u / 2 powi (- 53))) * 2 powi (- 53)"
    by (simp add: is_double_def)
  then obtain m :: int where m: "u = of_int m * 2 powi (- 53)" ..
  then have u: "u * 2 ^ 53 = of_int m" by (simp add: power_int_minus field_simps)
  from gt have "2 ^ 53 - 1 < u * 2 ^ 53" by (simp add: field_simps)
  with u have "(of_int (2 ^ 53 - 1) :: rat) < of_int m" by simp
  then have 1: "2 ^ 53 - 1 < m" by (simp only: of_int_less_iff)
  from assms(3) have "u * 2 ^ 53 < 2 ^ 53" by simp
  with u have "(of_int m :: rat) < of_int (2 ^ 53)" by simp
  then have 2: "m < 2 ^ 53" by (simp only: of_int_less_iff)
  from 1 2 show False by simp
qed

lemma to_double_zero: "to_double 0 = 0"
  by (simp add: to_double_def round_half_even_def)

lemma to_double_nonneg: "0 \<le> x \<Longrightarrow> 0 \<le> to_double x"
  using to_double_mono [of 0 x] by (simp add: to_double_zero)

text \<open>
  \<open>a + u * c\<close> in doubles, for a draw \<open>u\<close> of \<open>[0, 1)\<close>: between its values at the
  smallest and at the greatest double of the interval.
\<close>

lemma draw_scaled:
  assumes "is_double u" and "0 \<le> u" and "u < 1" and "0 \<le> a" and "0 \<le> c"
  shows "to_double a \<le> fadd a (fmul u c)
         \<and> fadd a (fmul u c) \<le> to_double (a + to_double ((1 - 1 / 2 ^ 53) * c))"
proof -
  from assms(1-3) have u: "u \<le> 1 - 1 / 2 ^ 53" by (rule double_below_1)
  from assms(2,5) have p0: "0 \<le> u * c" by simp
  then have m0: "0 \<le> fmul u c" unfolding fmul_def by (rule to_double_nonneg)
  from u assms(5) have "u * c \<le> (1 - 1 / 2 ^ 53) * c" by (rule mult_right_mono)
  with p0 have m1: "fmul u c \<le> to_double ((1 - 1 / 2 ^ 53) * c)"
    unfolding fmul_def by (rule to_double_mono)
  from m0 assms(4) have "to_double a \<le> to_double (a + fmul u c)"
    by (intro to_double_mono) simp_all
  moreover from m0 m1 assms(4)
  have "to_double (a + fmul u c) \<le> to_double (a + to_double ((1 - 1 / 2 ^ 53) * c))"
    by (intro to_double_mono) simp_all
  ultimately show ?thesis by (simp add: fadd_def)
qed

lemma rounded_draw_scaled:
  assumes "is_double u" and "0 \<le> u" and "u < 1" and "0 \<le> a" and "0 \<le> c"
  shows "py_round (to_double a) 3 \<le> py_round (fadd a (fmul u c)) 3
         \<and> py_round (fadd a (fmul u c)) 3
             \<le> py_round (to_double (a + to_double ((1 - 1 / 2 ^ 53) * c))) 3"
  using draw_scaled [OF assms] by (simp add: py_round_mono)

lemma literal_nonneg:
  "0 \<le> to_double (75 / 100)" "0 \<le> to_double (2 / 10)" "0 \<le> to_double (7 / 10)"
  "0 \<le> to_double (25 / 100)" "0 \<le> to_double (8 / 10)" "0 \<le> to_double (15 / 100)"
  by (simp_all add: to_double_nonneg)

lemma risk_confidence_ends:
  "py_round (to_double (to_double (75 / 100))) 3 = 75 / 100"
  "py_round (to_double (to_double (75 / 100)
       + to_double ((1 - 1 / 2 ^ 53) * to_double (2 / 10)))) 3 = 95 / 100"
  by code_simp+

lemma quality_prediction_ends:
  "py_round (to_double (to_double (7 / 10))) 3 = 7 / 10"
  "py_round (to_double (to_double (7 / 10)
       + to_double ((1 - 1 / 2 ^ 53) * to_double (25 / 100)))) 3 = 95 / 100"
  by code_simp+

lemma quality_confidence_ends:
  "py_round (to_double (to_double (8 / 10))) 3 = 8 / 10"
  "py_round (to_double (to_double (8 / 10)
       + to_double ((1 - 1 / 2 ^ 53) * to_double (15 / 100)))) 3 = 95 / 100"
  by code_simp+

lemma py_round_between:
  "of_int a / 1000 \<le> x \<Longrightarrow> x \<le> of_int b / 1000 \<Longrightarrow>
     of_int a / 1000 \<le> py_round x 3 \<and> py_round x 3 \<le> of_int b / 1000"
  using py_round_lower [of a 3 x] py_round_upper [of x b 3] by simp

lemma generate_risk:
  assumes "is_double (random_1 e)" and "0 \<le> random_1 e" and "random_1 e < 1"
  shows "0 \<le> py_round (fst (generate ''risk_prediction'' e)) 3
     \<and> py_round (fst (generate ''risk_prediction'' e)) 3 \<le> 10
     \<and> 75 / 100 \<le> py_round (snd (generate ''risk_prediction'' e)) 3
     \<and> py_round (snd (generate ''risk_prediction'' e)) 3 \<le> 95 / 100"
proof -
  let ?p = "py_max 0 (py_min 10 (normal_6_5_1_5 e))"
  have "0 \<le> ?p" "?p \<le> 10" by (simp_all add: py_max_def py_min_def)
  then have "0 \<le> py_round ?p 3 \<and> py_round ?p 3 \<le> 10"
    using py_round_between [of 0 ?p 10000] by simp
  moreover have "75 / 100 \<le> py_round (fadd (to_double (75 / 100)) (fmul (random_1 e) (to_double (2 / 10)))) 3
     \<and> py_round (fadd (to_double (75 / 100)) (fmul (random_1 e) (to_double (2 / 10)))) 3 \<le> 95 / 100"
    using rounded_draw_scaled [OF assms literal_nonneg(1) literal_nonneg(2)]
    by (simp only: risk_confidence_ends)
  ultimately show ?thesis by (simp add: generate_def)
qed

lemma generate_quality:
  assumes "is_double (random_1 e)" and "0 \<le> random_1 e" and "random_1 e < 1"
    and "is_double (random_2 e)" and "0 \<le> random_2 e" and "random_2 e < 1"
  shows "7 / 10 \<le> py_round (fst (generate ''data_quality'' e)) 3
     \<and> py_round (fst (generate ''data_quality'' e)) 3 \<le> 95 / 100
     \<and> 8 / 10 \<le> py_round (snd (generate ''data_quality'' e)) 3
     \<and> py_round (snd (generate ''data_quality'' e)) 3 \<le> 95 / 100"
proof -
  have "7 / 10 \<le> py_round (fadd (to_double (7 / 10)) (fmul (random_1 e) (to_double (25 / 100)))) 3
     \<and> py_round (fadd (to_double (7 / 10)) (fmul (random_1 e) (to_double (25 / 100)))) 3 \<le> 95 / 100"
    using rounded_draw_scaled [OF assms(1-3) literal_nonneg(3) literal_nonneg(4)]
    by (simp only: quality_prediction_ends)
  moreover have "8 / 10 \<le> py_round (fadd (to_double (8 / 10)) (fmul (random_2 e) (to_double (15 / 100)))) 3
     \<and> py_round (fadd (to_double (8 / 10)) (fmul (random_2 e) (to_double (15 / 100)))) 3 \<le> 95 / 100"
    using rounded_draw_scaled [OF assms(4-6) literal_nonneg(5) literal_nonneg(6)]
    by (simp only: quality_confidence_ends)
  ultimately show ?thesis by (simp add: generate_def)
qed

subsection \<open>The claims\<close>

text \<open>
  C6. Every call of \<open>GET /models\<close>, after any sequence of earlier requests, returns the two
  records of the registry as they are defined, the risk predictor first and the data
  quality checker second; so two calls return the same payload.
\<close>

theorem get_models_static:
  "fst (get_models (serve rs startup)) =
     [\<lparr>m_id = ''risk-predictor-local'',
       m_name = ''Risk Prediction Model (Local)'',
       m_type = ''risk_prediction'',
       m_status = ''active'',
       m_accuracy = 847 / 1000,
       m_version = ''1.0.0-local''\<rparr>,
      \<lparr>m_id = ''data-quality-local'',
       m_name = ''Data Quality Checker (Local)'',
       m_type = ''data_quality'',
       m_status = ''active'',
       m_accuracy = 923 / 1000,
       m_version = ''1.0.0-local''\<rparr>]
   \<and> fst (get_models (serve rs startup)) = fst (get_models (serve rs' startup))"
  by (simp add: serve_state get_models_def startup_def MOCK_MODELS_def)

text \<open>
  C7. Every call of \<open>GET /health\<close>, after any sequence of earlier requests and at any clock
  reading, answers with the status \<open>healthy\<close> and with 2 loaded models.
\<close>

theorem health_check_healthy_2:
  "status (fst (health_check e (serve rs startup))) = ''healthy''
   \<and> models_loaded (fst (health_check e (serve rs startup))) = 2"
  by (simp add: serve_state health_check_def startup_def MOCK_MODELS_def)

text \<open>
  C9. No handler changes the registry: the state a handler returns is the state it was
  given, for each of the four handlers and for every request, and so the registry after
  any sequence of requests is the registry before it.
\<close>

theorem handlers_keep_registry:
  "snd (health_check e s) = s
   \<and> snd (get_models s) = s
   \<and> snd (predict request e s) = s
   \<and> snd (root s) = s
   \<and> registry (snd (handle rq e s)) = registry s
   \<and> registry (serve rs s) = registry s"
  by (simp add: handle_state serve_state health_check_def get_models_def predict_def root_def
        split: option.splits prod.splits)

text \<open>
  C1. On the static registry, after any sequence of earlier requests: if a record of the
  registry has the type the request names, \<open>predict\<close> returns a response whose
  \<open>model_version\<close> is that record's \<open>version\<close>, which is \<open>1.0.0-local\<close>; if no
  record has it, \<open>predict\<close> returns an error and no response.
\<close>

theorem predict_model_version:
  "(\<forall>m \<in> set MOCK_MODELS. m_type m = model_type request \<longrightarrow>
      (\<exists>r. fst (predict request e (serve rs startup)) = Inr r
           \<and> model_version r = m_version m
           \<and> model_version r = ''1.0.0-local''))
   \<and> ((\<forall>m \<in> set MOCK_MODELS. m_type m \<noteq> model_type request) \<longrightarrow>
      (\<exists>err. fst (predict request e (serve rs startup)) = Inl err))"
  by (auto simp: serve_state predict_def startup_def MOCK_MODELS_def split: prod.splits)

theorem predict_model_version_witness:
  "(\<exists>r. fst (predict \<lparr>tenant_id = ''t1'', model_type = ''data_quality'', data = []\<rparr>
       \<lparr>now_isoformat = ''2024-01-01T00:00:00'', normal_6_5_1_5 = 13 / 2,
       random_1 = 1 / 2, random_2 = 1 / 2\<rparr> (serve [] startup)) = Inr r
        \<and> model_version r = m_version (MOCK_MODELS ! 1)
        \<and> model_version r = ''1.0.0-local'')
   \<and> (\<exists>err. fst (predict \<lparr>tenant_id = ''t1'', model_type = ''fraud'', data = []\<rparr>
       \<lparr>now_isoformat = ''2024-01-01T00:00:00'', normal_6_5_1_5 = 13 / 2,
       random_1 = 1 / 2, random_2 = 1 / 2\<rparr> (serve [] startup)) = Inl err)"
  using predict_model_version
      [of "\<lparr>tenant_id = ''t1'', model_type = ''data_quality'', data = []\<rparr>"
      "\<lparr>now_isoformat = ''2024-01-01T00:00:00'', normal_6_5_1_5 = 13 / 2,
       random_1 = 1 / 2, random_2 = 1 / 2\<rparr>" "[]"]
    predict_model_version
      [of "\<lparr>tenant_id = ''t1'', model_type = ''fraud'', data = []\<rparr>"
      "\<lparr>now_isoformat = ''2024-01-01T00:00:00'', normal_6_5_1_5 = 13 / 2,
       random_1 = 1 / 2, random_2 = 1 / 2\<rparr>" "[]"]
  by (simp add: MOCK_MODELS_def)

text \<open>
  C2. For any registry: \<open>predict\<close> returns the 404 error whose message names the requested
  type exactly when no record of the registry has that type, and it returns no other
  error; when the registry is \<open>pre @ m # post\<close> with \<open>m\<close> the first record of the
  requested type, the lookup selects \<open>m\<close> and the response carries the version of \<open>m\<close>.
\<close>

theorem predict_first_match_or_404:
  "(fst (predict request e s) =
       Inl (HTTPException 404 (''Model type '' @ [CHR 0x27] @ model_type request
                                 @ [CHR 0x27] @ '' not found''))
      \<longleftrightarrow> (\<forall>m \<in> set (registry s). m_type m \<noteq> model_type request))
   \<and> (isl (fst (predict request e s))
      \<longleftrightarrow> (\<forall>m \<in> set (registry s). m_type m \<noteq> model_type request))
   \<and> (\<forall>pre m post.
        registry s = pre @ m # post
        \<and> (\<forall>x \<in> set pre. m_type x \<noteq> model_type request)
        \<and> m_type m = model_type request
        \<longrightarrow> find_model (registry s) (model_type request) = Some m
            \<and> (\<exists>r. fst (predict request e s) = Inr r \<and> model_version r = m_version m))"
proof (intro conjI allI impI)
  show "(fst (predict request e s) =
       Inl (HTTPException 404 (''Model type '' @ [CHR 0x27] @ model_type request
                                 @ [CHR 0x27] @ '' not found'')))
      = (\<forall>m \<in> set (registry s). m_type m \<noteq> model_type request)"
    by (simp add: predict_Inl find_model_None)
  show "isl (fst (predict request e s))
      = (\<forall>m \<in> set (registry s). m_type m \<noteq> model_type request)"
    by (simp add: isl_def predict_Inl find_model_None)
next
  fix pre m post
  assume "registry s = pre @ m # post
        \<and> (\<forall>x \<in> set pre. m_type x \<noteq> model_type request)
        \<and> m_type m = model_type request"
  then show f: "find_model (registry s) (model_type request) = Some m"
    by (simp add: find_model_first)
  then show "\<exists>r. fst (predict request e s) = Inr r \<and> model_version r = m_version m"
    by (simp add: predict_Inr)
qed

theorem predict_first_match_or_404_witness:
  "fst (predict \<lparr>tenant_id = ''t1'', model_type = ''fraud'', data = []\<rparr>
      \<lparr>now_isoformat = ''2024-01-01T00:00:00'', normal_6_5_1_5 = 13 / 2,
       random_1 = 1 / 2, random_2 = 1 / 2\<rparr> startup)
     = Inl (HTTPException 404 (''Model type '' @ [CHR 0x27] @ ''fraud''
                                 @ [CHR 0x27] @ '' not found''))
   \<and> m_type (MOCK_MODELS ! 0) \<noteq> ''fraud''
   \<and> m_type (MOCK_MODELS ! 1) \<noteq> ''fraud''
   \<and> registry startup = [MOCK_MODELS ! 0] @ (MOCK_MODELS ! 1) # []
   \<and> m_type (MOCK_MODELS ! 0) \<noteq> ''data_quality''
   \<and> m_type (MOCK_MODELS ! 1) = ''data_quality''
   \<and> find_model (registry startup) ''data_quality'' = Some (MOCK_MODELS ! 1)
   \<and> \<not> isl (fst (predict \<lparr>tenant_id = ''t1'', model_type = ''data_quality'', data = []\<rparr>
      \<lparr>now_isoformat = ''2024-01-01T00:00:00'', normal_6_5_1_5 = 13 / 2,
       random_1 = 1 / 2, random_2 = 1 / 2\<rparr> startup))
   \<and> model_version (projr (fst (predict \<lparr>tenant_id = ''t1'', model_type = ''data_quality'', data = []\<rparr>
      \<lparr>now_isoformat = ''2024-01-01T00:00:00'', normal_6_5_1_5 = 13 / 2,
       random_1 = 1 / 2, random_2 = 1 / 2\<rparr>
      \<lparr>registry = [MOCK_MODELS ! 0,
       \<lparr>m_id = ''first'', m_name = ''first'', m_type = ''data_quality'',
        m_status = ''active'', m_accuracy = 9 / 10, m_version = ''first''\<rparr>,
       \<lparr>m_id = ''second'', m_name = ''second'', m_type = ''data_quality'',
        m_status = ''active'', m_accuracy = 9 / 10, m_version = ''second''\<rparr>]\<rparr>))) = ''first''"
  using predict_first_match_or_404
      [of "\<lparr>tenant_id = ''t1'', model_type = ''data_quality'', data = []\<rparr>"
      "\<lparr>now_isoformat = ''2024-01-01T00:00:00'', normal_6_5_1_5 = 13 / 2,
       random_1 = 1 / 2, random_2 = 1 / 2\<rparr>"
      "\<lparr>registry = [MOCK_MODELS ! 0,
       \<lparr>m_id = ''first'', m_name = ''first'', m_type = ''data_quality'',
        m_status = ''active'', m_accuracy = 9 / 10, m_version = ''first''\<rparr>,
       \<lparr>m_id = ''second'', m_name = ''second'', m_type = ''data_quality'',
        m_status = ''active'', m_accuracy = 9 / 10, m_version = ''second''\<rparr>]\<rparr>"]
    predict_first_match_or_404
      [of "\<lparr>tenant_id = ''t1'', model_type = ''fraud'', data = []\<rparr>"
      "\<lparr>now_isoformat = ''2024-01-01T00:00:00'', normal_6_5_1_5 = 13 / 2,
       random_1 = 1 / 2, random_2 = 1 / 2\<rparr>" startup]
    predict_first_match_or_404
      [of "\<lparr>tenant_id = ''t1'', model_type = ''data_quality'', data = []\<rparr>"
      "\<lparr>now_isoformat = ''2024-01-01T00:00:00'', normal_6_5_1_5 = 13 / 2,
       random_1 = 1 / 2, random_2 = 1 / 2\<rparr>" startup]
  by (simp add: startup_def MOCK_MODELS_def predict_def generate_def)

text \<open>
  C3, as the specification states it, with the strict bound \<open>confidence < 0.95\<close>, fails:
  with the draw \<open>1023/1024\<close> of \<open>np.random.random()\<close> the confidence passed to \<open>round\<close>
  is \<open>0.9498046875\<close>, and \<open>round(..., 3)\<close> returns \<open>0.95\<close>.
\<close>

theorem risk_confidence_not_below_095:
  "fst (predict \<lparr>tenant_id = ''t1'', model_type = ''risk_prediction'', data = []\<rparr>
      \<lparr>now_isoformat = ''2024-01-01T00:00:00'', normal_6_5_1_5 = 13 / 2,
       random_1 = 1023 / 1024, random_2 = 1 / 2\<rparr> startup)
     = Inr \<lparr>prediction = 13 / 2, confidence = 95 / 100, model_version = ''1.0.0-local'',
            p_timestamp = ''2024-01-01T00:00:00''\<rparr>
   \<and> is_double (random_1 \<lparr>now_isoformat = ''2024-01-01T00:00:00'', normal_6_5_1_5 = 13 / 2,
       random_1 = 1023 / 1024, random_2 = 1 / 2\<rparr>)
   \<and> 0 \<le> random_1 \<lparr>now_isoformat = ''2024-01-01T00:00:00'', normal_6_5_1_5 = 13 / 2,
       random_1 = 1023 / 1024, random_2 = 1 / 2\<rparr>
   \<and> random_1 \<lparr>now_isoformat = ''2024-01-01T00:00:00'', normal_6_5_1_5 = 13 / 2,
       random_1 = 1023 / 1024, random_2 = 1 / 2\<rparr> < 1
   \<and> \<not> confidence (projr (fst (predict \<lparr>tenant_id = ''t1'', model_type = ''risk_prediction'', data = []\<rparr>
      \<lparr>now_isoformat = ''2024-01-01T00:00:00'', normal_6_5_1_5 = 13 / 2,
       random_1 = 1023 / 1024, random_2 = 1 / 2\<rparr> startup))) < 95 / 100"
  by code_simp

text \<open>
  C3, amended. For a request of type \<open>risk_prediction\<close> that \<open>predict\<close> answers, with the
  draw of \<open>np.random.random()\<close> a double in \<open>[0, 1)\<close> and any draw of \<open>np.random.normal\<close>:
  \<open>0 \<le> prediction \<le> 10\<close> and \<open>0.75 \<le> confidence \<le> 0.95\<close>.
\<close>

theorem risk_prediction_ranges:
  assumes "is_double (random_1 e)" and "0 \<le> random_1 e" and "random_1 e < 1"
    and "model_type request = ''risk_prediction''"
    and "fst (predict request e s) = Inr r"
  shows "0 \<le> prediction r \<and> prediction r \<le> 10
         \<and> 75 / 100 \<le> confidence r \<and> confidence r \<le> 95 / 100"
proof -
  let ?g = "generate ''risk_prediction'' e"
  from assms(4,5) have p: "prediction r = py_round (fst ?g) 3"
    and c: "confidence r = py_round (snd ?g) 3"
    by (auto simp: predict_Inr)
  from generate_risk [OF assms(1-3)] show ?thesis by (simp only: p c)
qed

theorem risk_prediction_ranges_witness:
  "is_double (random_1 \<lparr>now_isoformat = ''2024-01-01T00:00:00'', normal_6_5_1_5 = 12,
       random_1 = 1 / 2, random_2 = 1 / 2\<rparr>)
   \<and> 0 \<le> random_1 \<lparr>now_isoformat = ''2024-01-01T00:00:00'', normal_6_5_1_5 = 12,
       random_1 = 1 / 2, random_2 = 1 / 2\<rparr>
   \<and> random_1 \<lparr>now_isoformat = ''2024-01-01T00:00:00'', normal_6_5_1_5 = 12,
       random_1 = 1 / 2, random_2 = 1 / 2\<rparr> < 1
   \<and> model_type \<lparr>tenant_id = ''t1'', model_type = ''risk_prediction'', data = []\<rparr> = ''risk_prediction''
   \<and> fst (predict \<lparr>tenant_id = ''t1'', model_type = ''risk_prediction'', data = []\<rparr>
      \<lparr>now_isoformat = ''2024-01-01T00:00:00'', normal_6_5_1_5 = 12,
       random_1 = 1 / 2, random_2 = 1 / 2\<rparr> startup)
     = Inr \<lparr>prediction = 10, confidence = 85 / 100, model_version = ''1.0.0-local'',
            p_timestamp = ''2024-01-01T00:00:00''\<rparr>
   \<and> 0 \<le> prediction \<lparr>prediction = 10, confidence = 85 / 100, model_version = ''1.0.0-local'',
            p_timestamp = ''2024-01-01T00:00:00''\<rparr>
   \<and> prediction \<lparr>prediction = 10, confidence = 85 / 100, model_version = ''1.0.0-local'',
            p_timestamp = ''2024-01-01T00:00:00''\<rparr> \<le> 10
   \<and> 75 / 100 \<le> confidence \<lparr>prediction = 10, confidence = 85 / 100, model_version = ''1.0.0-local'',
            p_timestamp = ''2024-01-01T00:00:00''\<rparr>
   \<and> confidence \<lparr>prediction = 10, confidence = 85 / 100, model_version = ''1.0.0-local'',
            p_timestamp = ''2024-01-01T00:00:00''\<rparr> \<le> 95 / 100"
proof -
  have h: "fst (predict \<lparr>tenant_id = ''t1'', model_type = ''risk_prediction'', data = []\<rparr>
      \<lparr>now_isoformat = ''2024-01-01T00:00:00'', normal_6_5_1_5 = 12,
       random_1 = 1 / 2, random_2 = 1 / 2\<rparr> startup)
     = Inr \<lparr>prediction = 10, confidence = 85 / 100, model_version = ''1.0.0-local'',
            p_timestamp = ''2024-01-01T00:00:00''\<rparr>"
    by code_simp
  have d: "is_double (random_1 \<lparr>now_isoformat = ''2024-01-01T00:00:00'', normal_6_5_1_5 = 12,
       random_1 = 1 / 2, random_2 = 1 / 2\<rparr>)"
    by code_simp
  have a: "0 \<le> random_1 \<lparr>now_isoformat = ''2024-01-01T00:00:00'', normal_6_5_1_5 = 12,
       random_1 = 1 / 2, random_2 = 1 / 2\<rparr>"
    and b: "random_1 \<lparr>now_isoformat = ''2024-01-01T00:00:00'', normal_6_5_1_5 = 12,
       random_1 = 1 / 2, random_2 = 1 / 2\<rparr> < 1"
    and c: "model_type \<lparr>tenant_id = ''t1'', model_type = ''risk_prediction'', data = []\<rparr> = ''risk_prediction''"
    by simp_all
  show ?thesis using d a b c h risk_prediction_ranges [OF d a b c h] by simp
qed

text \<open>
  C4, as the specification states it, with the strict bounds \<open>prediction < 0.95\<close> and
  \<open>confidence < 0.95\<close>, fails: with both draws \<open>1023/1024\<close> the values passed to \<open>round\<close>
  are \<open>0.949755859375\<close> and \<open>0.949853515625\<close>, up to the rounding of the doubles, and
  \<open>round(..., 3)\<close> returns \<open>0.95\<close> for both.
\<close>

theorem data_quality_not_below_095:
  "fst (predict \<lparr>tenant_id = ''t1'', model_type = ''data_quality'', data = []\<rparr>
      \<lparr>now_isoformat = ''2024-01-01T00:00:00'', normal_6_5_1_5 = 13 / 2,
       random_1 = 1023 / 1024, random_2 = 1023 / 1024\<rparr> startup)
     = Inr \<lparr>prediction = 95 / 100, confidence = 95 / 100, model_version = ''1.0.0-local'',
            p_timestamp = ''2024-01-01T00:00:00''\<rparr>
   \<and> is_double (random_1 \<lparr>now_isoformat = ''2024-01-01T00:00:00'', normal_6_5_1_5 = 13 / 2,
       random_1 = 1023 / 1024, random_2 = 1023 / 1024\<rparr>)
   \<and> 0 \<le> random_1 \<lparr>now_isoformat = ''2024-01-01T00:00:00'', normal_6_5_1_5 = 13 / 2,
       random_1 = 1023 / 1024, random_2 = 1023 / 1024\<rparr>
   \<and> random_1 \<lparr>now_isoformat = ''2024-01-01T00:00:00'', normal_6_5_1_5 = 13 / 2,
       random_1 = 1023 / 1024, random_2 = 1023 / 1024\<rparr> < 1
   \<and> is_double (random_2 \<lparr>now_isoformat = ''2024-01-01T00:00:00'', normal_6_5_1_5 = 13 / 2,
       random_1 = 1023 / 1024, random_2 = 1023 / 1024\<rparr>)
   \<and> 0 \<le> random_2 \<lparr>now_isoformat = ''2024-01-01T00:00:00'', normal_6_5_1_5 = 13 / 2,
       random_1 = 1023 / 1024, random_2 = 1023 / 1024\<rparr>
   \<and> random_2 \<lparr>now_isoformat = ''2024-01-01T00:00:00'', normal_6_5_1_5 = 13 / 2,
       random_1 = 1023 / 1024, random_2 = 1023 / 1024\<rparr> < 1
   \<and> \<not> prediction (projr (fst (predict \<lparr>tenant_id = ''t1'', model_type = ''data_quality'', data = []\<rparr>
      \<lparr>now_isoformat = ''2024-01-01T00:00:00'', normal_6_5_1_5 = 13 / 2,
       random_1 = 1023 / 1024, random_2 = 1023 / 1024\<rparr> startup))) < 95 / 100
   \<and> \<not> confidence (projr (fst (predict \<lparr>tenant_id = ''t1'', model_type = ''data_quality'', data = []\<rparr>
      \<lparr>now_isoformat = ''2024-01-01T00:00:00'', normal_6_5_1_5 = 13 / 2,
       random_1 = 1023 / 1024, random_2 = 1023 / 1024\<rparr> startup))) < 95 / 100"
  by code_simp

text \<open>
  C4, amended. For a request of type \<open>data_quality\<close> that \<open>predict\<close> answers, with both
  draws of \<open>np.random.random()\<close> doubles in \<open>[0, 1)\<close>: \<open>0.7 \<le> prediction \<le> 0.95\<close> and
  \<open>0.8 \<le> confidence \<le> 0.95\<close>.
\<close>

theorem data_quality_ranges:
  assumes "is_double (random_1 e)" and "0 \<le> random_1 e" and "random_1 e < 1"
    and "is_double (random_2 e)" and "0 \<le> random_2 e" and "random_2 e < 1"
    and "model_type request = ''data_quality''"
    and "fst (predict request e s) = Inr r"
  shows "7 / 10 \<le> prediction r \<and> prediction r \<le> 95 / 100
         \<and> 8 / 10 \<le> confidence r \<and> confidence r \<le> 95 / 100"
proof -
  let ?g = "generate ''data_quality'' e"
  from assms(7,8) have p: "prediction r = py_round (fst ?g) 3"
    and c: "confidence r = py_round (snd ?g) 3"
    by (auto simp: predict_Inr)
  from generate_quality [OF assms(1-6)] show ?thesis by (simp only: p c)
qed

theorem data_quality_ranges_witness:
  "is_double (random_1 \<lparr>now_isoformat = ''2024-01-01T00:00:00'', normal_6_5_1_5 = 13 / 2,
       random_1 = 3 / 4, random_2 = 3 / 4\<rparr>)
   \<and> 0 \<le> random_1 \<lparr>now_isoformat = ''2024-01-01T00:00:00'', normal_6_5_1_5 = 13 / 2,
       random_1 = 3 / 4, random_2 = 3 / 4\<rparr> \<and> random_1 \<lparr>now_isoformat = ''2024-01-01T00:00:00'', normal_6_5_1_5 = 13 / 2,
       random_1 = 3 / 4, random_2 = 3 / 4\<rparr> < 1
   \<and> is_double (random_2 \<lparr>now_isoformat = ''2024-01-01T00:00:00'', normal_6_5_1_5 = 13 / 2,
       random_1 = 3 / 4, random_2 = 3 / 4\<rparr>)
   \<and> 0 \<le> random_2 \<lparr>now_isoformat = ''2024-01-01T00:00:00'', normal_6_5_1_5 = 13 / 2,
       random_1 = 3 / 4, random_2 = 3 / 4\<rparr> \<and> random_2 \<lparr>now_isoformat = ''2024-01-01T00:00:00'', normal_6_5_1_5 = 13 / 2,
       random_1 = 3 / 4, random_2 = 3 / 4\<rparr> < 1
   \<and> model_type \<lparr>tenant_id = ''t1'', model_type = ''data_quality'', data = []\<rparr> = ''data_quality''
   \<and> fst (predict \<lparr>tenant_id = ''t1'', model_type = ''data_quality'', data = []\<rparr>
      \<lparr>now_isoformat = ''2024-01-01T00:00:00'', normal_6_5_1_5 = 13 / 2,
       random_1 = 3 / 4, random_2 = 3 / 4\<rparr> startup)
     = Inr \<lparr>prediction = 887 / 1000, confidence = 913 / 1000, model_version = ''1.0.0-local'',
            p_timestamp = ''2024-01-01T00:00:00''\<rparr>
   \<and> 7 / 10 \<le> prediction \<lparr>prediction = 887 / 1000, confidence = 913 / 1000, model_version = ''1.0.0-local'',
            p_timestamp = ''2024-01-01T00:00:00''\<rparr>
   \<and> prediction \<lparr>prediction = 887 / 1000, confidence = 913 / 1000, model_version = ''1.0.0-local'',
            p_timestamp = ''2024-01-01T00:00:00''\<rparr> \<le> 95 / 100
   \<and> 8 / 10 \<le> confidence \<lparr>prediction = 887 / 1000, confidence = 913 / 1000, model_version = ''1.0.0-local'',
            p_timestamp = ''2024-01-01T00:00:00''\<rparr>
   \<and> confidence \<lparr>prediction = 887 / 1000, confidence = 913 / 1000, model_version = ''1.0.0-local'',
            p_timestamp = ''2024-01-01T00:00:00''\<rparr> \<le> 95 / 100"
proof -
  have h: "fst (predict \<lparr>tenant_id = ''t1'', model_type = ''data_quality'', data = []\<rparr>
      \<lparr>now_isoformat = ''2024-01-01T00:00:00'', normal_6_5_1_5 = 13 / 2,
       random_1 = 3 / 4, random_2 = 3 / 4\<rparr> startup)
     = Inr \<lparr>prediction = 887 / 1000, confidence = 913 / 1000, model_version = ''1.0.0-local'',
            p_timestamp = ''2024-01-01T00:00:00''\<rparr>"
    by code_simp
  have d1: "is_double (random_1 \<lparr>now_isoformat = ''2024-01-01T00:00:00'', normal_6_5_1_5 = 13 / 2,
       random_1 = 3 / 4, random_2 = 3 / 4\<rparr>)"
    and d2: "is_double (random_2 \<lparr>now_isoformat = ''2024-01-01T00:00:00'', normal_6_5_1_5 = 13 / 2,
       random_1 = 3 / 4, random_2 = 3 / 4\<rparr>)"
    by code_simp+
  have a: "0 \<le> random_1 \<lparr>now_isoformat = ''2024-01-01T00:00:00'', normal_6_5_1_5 = 13 / 2,
       random_1 = 3 / 4, random_2 = 3 / 4\<rparr>"
    and b: "random_1 \<lparr>now_isoformat = ''2024-01-01T00:00:00'', normal_6_5_1_5 = 13 / 2,
       random_1 = 3 / 4, random_2 = 3 / 4\<rparr> < 1"
    and c: "0 \<le> random_2 \<lparr>now_isoformat = ''2024-01-01T00:00:00'', normal_6_5_1_5 = 13 / 2,
       random_1 = 3 / 4, random_2 = 3 / 4\<rparr>"
    and d: "random_2 \<lparr>now_isoformat = ''2024-01-01T00:00:00'', normal_6_5_1_5 = 13 / 2,
       random_1 = 3 / 4, random_2 = 3 / 4\<rparr> < 1"
    and f: "model_type \<lparr>tenant_id = ''t1'', model_type = ''data_quality'', data = []\<rparr> = ''data_quality''"
    by simp_all
  show ?thesis using d1 d2 a b c d f h data_quality_ranges [OF d1 a b d2 c d f h] by simp
qed

text \<open>
  C5. On the static registry, after any sequence of earlier requests: a request that passes
  the lookup has the type \<open>risk_prediction\<close> or \<open>data_quality\<close>, so the condition of the
  last branch of the computation is false, and the values computed are those of the
  first or of the second branch.
\<close>

theorem generic_branch_unreachable:
  assumes "find_model (registry (serve rs startup)) (model_type request) = Some model"
  shows "(model_type request = ''risk_prediction'' \<or> model_type request = ''data_quality'')
         \<and> \<not> (model_type request \<noteq> ''risk_prediction'' \<and> model_type request \<noteq> ''data_quality'')
         \<and> generate (model_type request) e =
             (if model_type request = ''risk_prediction'' then
                (py_max 0 (py_min 10 (normal_6_5_1_5 e)),
                 fadd (to_double (75 / 100)) (fmul (random_1 e) (to_double (2 / 10))))
              else
                (fadd (to_double (7 / 10)) (fmul (random_1 e) (to_double (25 / 100))),
                 fadd (to_double (8 / 10)) (fmul (random_2 e) (to_double (15 / 100)))))"
proof -
  from assms have "find_model MOCK_MODELS (model_type request) \<noteq> None"
    by (simp add: serve_state startup_def)
  then have t: "model_type request = ''risk_prediction'' \<or> model_type request = ''data_quality''"
    by (simp add: find_model_MOCK split: if_splits)
  then show ?thesis by (auto simp: generate_def)
qed

theorem generic_branch_unreachable_witness:
  "find_model (registry (serve [(GetHealth, \<lparr>now_isoformat = ''2024-01-01T00:00:00'', normal_6_5_1_5 = 13 / 2,
       random_1 = 1 / 2, random_2 = 1 / 2\<rparr>)] startup))
       (model_type \<lparr>tenant_id = ''t1'', model_type = ''data_quality'', data = []\<rparr>) = Some (MOCK_MODELS ! 1)
   \<and> generate (model_type \<lparr>tenant_id = ''t1'', model_type = ''data_quality'', data = []\<rparr>)
       \<lparr>now_isoformat = ''2024-01-01T00:00:00'', normal_6_5_1_5 = 13 / 2,
       random_1 = 1 / 2, random_2 = 1 / 2\<rparr>
     = (fadd (to_double (7 / 10)) (fmul (1 / 2) (to_double (25 / 100))),
        fadd (to_double (8 / 10)) (fmul (1 / 2) (to_double (15 / 100))))"
proof -
  have h: "find_model (registry (serve [(GetHealth, \<lparr>now_isoformat = ''2024-01-01T00:00:00'', normal_6_5_1_5 = 13 / 2,
       random_1 = 1 / 2, random_2 = 1 / 2\<rparr>)] startup))
       (model_type \<lparr>tenant_id = ''t1'', model_type = ''data_quality'', data = []\<rparr>) = Some (MOCK_MODELS ! 1)"
    by (simp add: health_check_def startup_def MOCK_MODELS_def)
  show ?thesis
    using h generic_branch_unreachable [OF h, of "\<lparr>now_isoformat = ''2024-01-01T00:00:00'', normal_6_5_1_5 = 13 / 2,
       random_1 = 1 / 2, random_2 = 1 / 2\<rparr>"]
    by simp
qed

text \<open>
  C8. In every response of \<open>predict\<close>, \<open>prediction\<close> and \<open>confidence\<close> are \<open>round(x, 3)\<close>
  of the two doubles \<open>x\<close> the branch computed, and each is that value rounded to 3 decimal
  places as the specification means it: a whole number of thousandths, at most half a
  thousandth away.
\<close>

theorem predict_rounds_to_3_places:
  assumes "fst (predict request e s) = Inr r"
  shows "prediction r = py_round (fst (generate (model_type request) e)) 3
         \<and> confidence r = py_round (snd (generate (model_type request) e)) 3
         \<and> rounded_to_3_places (fst (generate (model_type request) e)) (prediction r)
         \<and> rounded_to_3_places (snd (generate (model_type request) e)) (confidence r)"
proof -
  from assms have p: "prediction r = py_round (fst (generate (model_type request) e)) 3"
    and c: "confidence r = py_round (snd (generate (model_type request) e)) 3"
    by (auto simp: predict_Inr)
  have "rounded_to_3_places x (py_round x 3)" for x
    unfolding rounded_to_3_places_def using py_round_grid [of x] py_round_near [of x] by simp
  then show ?thesis by (simp add: p c)
qed

theorem predict_rounds_to_3_places_witness:
  "fst (predict \<lparr>tenant_id = ''t1'', model_type = ''risk_prediction'', data = []\<rparr>
      \<lparr>now_isoformat = ''2024-01-01T00:00:00'', normal_6_5_1_5 = 6789 / 1024,
       random_1 = 3 / 16, random_2 = 1 / 2\<rparr> startup)
     = Inr \<lparr>prediction = 663 / 100, confidence = 787 / 1000, model_version = ''1.0.0-local'',
            p_timestamp = ''2024-01-01T00:00:00''\<rparr>
   \<and> generate ''risk_prediction''
      \<lparr>now_isoformat = ''2024-01-01T00:00:00'', normal_6_5_1_5 = 6789 / 1024,
       random_1 = 3 / 16, random_2 = 1 / 2\<rparr> = (6789 / 1024, 7093169413108531 / 9007199254740992)
   \<and> rounded_to_3_places (6789 / 1024) (663 / 100)
   \<and> rounded_to_3_places (7093169413108531 / 9007199254740992) (787 / 1000)"
proof -
  have h: "fst (predict \<lparr>tenant_id = ''t1'', model_type = ''risk_prediction'', data = []\<rparr>
      \<lparr>now_isoformat = ''2024-01-01T00:00:00'', normal_6_5_1_5 = 6789 / 1024,
       random_1 = 3 / 16, random_2 = 1 / 2\<rparr> startup)
     = Inr \<lparr>prediction = 663 / 100, confidence = 787 / 1000, model_version = ''1.0.0-local'',
            p_timestamp = ''2024-01-01T00:00:00''\<rparr>"
    by code_simp
  have g: "generate ''risk_prediction''
      \<lparr>now_isoformat = ''2024-01-01T00:00:00'', normal_6_5_1_5 = 6789 / 1024,
       random_1 = 3 / 16, random_2 = 1 / 2\<rparr> = (6789 / 1024, 7093169413108531 / 9007199254740992)"
    by code_simp
  show ?thesis using h g predict_rounds_to_3_places [OF h] by simp
qed

text \<open>
  C10. Two requests with the same \<open>model_type\<close>, answered on the same registry with the same
  random draws, get the same prediction, confidence and model version, or the same error,
  whatever their \<open>tenant_id\<close> and \<open>data\<close> and whatever the clock reads.
\<close>

theorem predict_ignores_tenant_and_data:
  assumes "model_type request1 = model_type request2"
    and "normal_6_5_1_5 e1 = normal_6_5_1_5 e2"
    and "random_1 e1 = random_1 e2"
    and "random_2 e1 = random_2 e2"
  shows "map_sum id (\<lambda>r. (prediction r, confidence r, model_version r)) (fst (predict request1 e1 s))
       = map_sum id (\<lambda>r. (prediction r, confidence r, model_version r)) (fst (predict request2 e2 s))"
  using assms
  by (simp add: predict_def generate_def split: option.splits prod.splits)

theorem predict_ignores_tenant_and_data_witness:
  "map_sum id (\<lambda>r. (prediction r, confidence r, model_version r))
     (fst (predict \<lparr>tenant_id = ''tenant-a'', model_type = ''data_quality'', data = []\<rparr>
        \<lparr>now_isoformat = ''2024-01-01T00:00:00'', normal_6_5_1_5 = 13 / 2,
       random_1 = 1 / 2, random_2 = 1 / 2\<rparr> startup))
   = map_sum id (\<lambda>r. (prediction r, confidence r, model_version r))
     (fst (predict \<lparr>tenant_id = ''tenant-b'', model_type = ''data_quality'',
                    data = [(''records'', JArr [JNum 1, JStr ''x''])]\<rparr>
        \<lparr>now_isoformat = ''2024-06-30T12:00:00'', normal_6_5_1_5 = 13 / 2,
       random_1 = 1 / 2, random_2 = 1 / 2\<rparr> startup))
   \<and> fst (predict \<lparr>tenant_id = ''tenant-a'', model_type = ''data_quality'', data = []\<rparr>
        \<lparr>now_isoformat = ''2024-01-01T00:00:00'', normal_6_5_1_5 = 13 / 2,
       random_1 = 1 / 2, random_2 = 1 / 2\<rparr> startup)
     = Inr \<lparr>prediction = 825 / 1000, confidence = 875 / 1000, model_version = ''1.0.0-local'',
            p_timestamp = ''2024-01-01T00:00:00''\<rparr>"
proof -
  have h: "fst (predict \<lparr>tenant_id = ''tenant-a'', model_type = ''data_quality'', data = []\<rparr>
        \<lparr>now_isoformat = ''2024-01-01T00:00:00'', normal_6_5_1_5 = 13 / 2,
       random_1 = 1 / 2, random_2 = 1 / 2\<rparr> startup)
     = Inr \<lparr>prediction = 825 / 1000, confidence = 875 / 1000, model_version = ''1.0.0-local'',
            p_timestamp = ''2024-01-01T00:00:00''\<rparr>"
    by code_simp
  show ?thesis
    using h predict_ignores_tenant_and_data
      [of "\<lparr>tenant_id = ''tenant-a'', model_type = ''data_quality'', data = []\<rparr>"
          "\<lparr>tenant_id = ''tenant-b'', model_type = ''data_quality'',
            data = [(''records'', JArr [JNum 1, JStr ''x''])]\<rparr>"
          "\<lparr>now_isoformat = ''2024-01-01T00:00:00'', normal_6_5_1_5 = 13 / 2,
       random_1 = 1 / 2, random_2 = 1 / 2\<rparr>"
          "\<lparr>now_isoformat = ''2024-06-30T12:00:00'', normal_6_5_1_5 = 13 / 2,
       random_1 = 1 / 2, random_2 = 1 / 2\<rparr>" startup]
    by simp
qed

end
